theory Spec2Isabelle
  imports Complex_Main "HOL-Library.Sublist"
begin

section \<open>The fish bite prediction component (src/src/App.jsx)\<close>

text \<open>
  The component \<open>FishBitePredictionApp\<close> keeps six pieces of React state. Besides the
  form's \<open>handleInputChange\<close>, which stores what the user types, four handlers change
  them: \<open>fetchWeatherData\<close>, \<open>fetchWeatherByCoords\<close>, \<open>handleGeolocate\<close> and
  \<open>predictFishBite\<close>. The state is a record, each of the four handlers is a function
  from the state before to the state after, and the two outside collaborators (the
  weather provider behind \<open>axios.get\<close>, the browser's geolocation service) are
  arguments of the handlers. The properties are stated for every content of the form.

  Numbers of the program are IEEE doubles. Every number the handlers look at is either
  compared with an integer constant or rounded, and both agree with the same operation
  on the real number the double stands for, so numeric fields are \<open>real\<close>. The score is
  50 plus integer constants, so it is an \<open>int\<close>.
\<close>

subsection \<open>State\<close>

text \<open>
  \<open>formData\<close>, lines 27-32. The scorer reads \<open>waterTemperature\<close> only through
  numeric comparison, so the field holds the number the stored value reads as.
\<close>

record form_data =
  location :: string
  waterTemperature :: real
  timeOfDay :: string
  moonPhase :: string

text \<open>
  The body of the provider's answer, as far as the component reads it:
  \<open>name\<close>, \<open>main.temp\<close>, the array \<open>weather\<close> of objects with \<open>main\<close> and
  \<open>description\<close>, and \<open>wind.speed\<close>. The two nested one-field objects are flattened
  to \<open>main_temp\<close> and \<open>wind_speed\<close>.
\<close>

record condition =
  main :: string
  description :: string

record weather_data =
  name :: string
  main_temp :: real
  weather :: "condition list"
  wind_speed :: real

text \<open>The six \<open>useState\<close> cells, lines 27-38.\<close>

record app_state =
  formData :: form_data
  weatherData :: "weather_data option"
  prediction :: "int option"
  loading :: bool
  error :: "string option"
  geoLoading :: bool

text \<open>The initial values passed to \<open>useState\<close>.\<close>

definition initialFormData :: form_data where
  "initialFormData =
     \<lparr>location = '''', waterTemperature = 20, timeOfDay = ''08:00'', moonPhase = ''full''\<rparr>"

definition initialState :: app_state where
  "initialState =
     \<lparr>formData = initialFormData, weatherData = None, prediction = None,
      loading = False, error = None, geoLoading = False\<rparr>"

subsection \<open>String operations of the language\<close>

text \<open>
  \<open>String.prototype.toLowerCase\<close> on the characters of the model: the letters A to Z
  move to a to z, every other character stays.
\<close>

definition toLowerCase_char :: "char \<Rightarrow> char" where
  "toLowerCase_char c =
     (let n = (of_char c :: nat) in if 65 \<le> n \<and> n \<le> 90 then char_of (n + 32) else c)"

definition toLowerCase :: "string \<Rightarrow> string" where
  "toLowerCase s = map toLowerCase_char s"

text \<open>
  \<open>s.includes(t)\<close>: \<open>t\<close> starts at some position of \<open>s\<close> (the position may be the
  end of \<open>s\<close>, where only the empty string starts).
\<close>

fun includes_str :: "string \<Rightarrow> string \<Rightarrow> bool" where
  "includes_str [] t = (t = [])"
| "includes_str (c # cs) t = (prefix t (c # cs) \<or> includes_str cs t)"

text \<open>\<open>s.split(':')[0]\<close>: the part of \<open>s\<close> before the first colon, all of \<open>s\<close> without one.\<close>

definition split_first :: "string \<Rightarrow> string" where
  "split_first s = takeWhile (\<lambda>c. c \<noteq> CHR '':'') s"

text \<open>
  \<open>parseInt(s)\<close> with no radix. Leading white space is dropped, then one sign is read,
  then the prefix \<open>0x\<close> or \<open>0X\<close> switches to radix 16, then the longest run of digits of
  the radix is read. With no digit the result is \<open>NaN\<close>, here \<open>None\<close>. Every
  comparison with \<open>NaN\<close> is false, which the comparisons below write out.
\<close>

definition isWhiteSpace :: "char \<Rightarrow> bool" where
  "isWhiteSpace c = ((of_char c :: nat) \<in> {9, 10, 11, 12, 13, 32, 160})"

definition digitValue :: "char \<Rightarrow> nat option" where
  "digitValue c =
     (let n = (of_char c :: nat) in
      if 48 \<le> n \<and> n \<le> 57 then Some (n - 48)
      else if 97 \<le> n \<and> n \<le> 122 then Some (n - 87)
      else if 65 \<le> n \<and> n \<le> 90 then Some (n - 55)
      else None)"

definition isDigit :: "nat \<Rightarrow> char \<Rightarrow> bool" where
  "isDigit radix c = (case digitValue c of None \<Rightarrow> False | Some d \<Rightarrow> d < radix)"

definition digitsValue :: "nat \<Rightarrow> string \<Rightarrow> int" where
  "digitsValue radix ds =
     foldl (\<lambda>acc c. acc * int radix + (case digitValue c of None \<Rightarrow> 0 | Some d \<Rightarrow> int d)) 0 ds"

definition parseInt :: "string \<Rightarrow> int option" where
  "parseInt s =
     (let s1 = dropWhile isWhiteSpace s;
          (sign, s2) = (case s1 of
                          c # r \<Rightarrow> if c = CHR ''-'' then (- 1, r)
                                   else if c = CHR ''+'' then (1, r) else (1, s1)
                        | [] \<Rightarrow> (1 :: int, s1));
          (radix, s3) = (case s2 of
                           a # b # r \<Rightarrow> if a = CHR ''0'' \<and> (b = CHR ''x'' \<or> b = CHR ''X'')
                                        then (16, r) else (10, s2)
                         | _ \<Rightarrow> (10 :: nat, s2));
          ds = takeWhile (isDigit radix) s3
      in if ds = [] then None else Some (sign * digitsValue radix ds))"

subsection \<open>The scorer: \<open>predictFishBite\<close>, lines 132-175\<close>

text \<open>
  Each block that changes \<open>score\<close> is a function from the score before to the score
  after. Lines 144-146:
\<close>

definition temperatureImpact :: "real \<Rightarrow> int \<Rightarrow> int" where
  "temperatureImpact waterTemp score =
     (if waterTemp \<ge> 18 \<and> waterTemp \<le> 24 then score + 20 else score)"

text \<open>Lines 149-151: two separate \<open>if\<close> statements on the parsed hour.\<close>

definition timeImpact :: "string \<Rightarrow> int \<Rightarrow> int" where
  "timeImpact tod score =
     (let hour = parseInt (split_first tod);
          score = (if (case hour of None \<Rightarrow> False | Some h \<Rightarrow> h \<ge> 6 \<and> h \<le> 10)
                   then score + 15 else score);
          score = (if (case hour of None \<Rightarrow> False | Some h \<Rightarrow> h \<ge> 16 \<and> h \<le> 19)
                   then score + 15 else score)
      in score)"

text \<open>
  Lines 155-159: \<open>switch(true)\<close> runs the first case whose expression is \<open>true\<close>.
  The argument is \<open>mainWeather\<close>, already in lower case.
\<close>

definition weatherImpact :: "string \<Rightarrow> int \<Rightarrow> int" where
  "weatherImpact mainWeather score =
     (if includes_str mainWeather ''clear'' then score + 10
      else if includes_str mainWeather ''clouds'' then score + 5
      else if includes_str mainWeather ''rain'' then score - 10
      else score)"

text \<open>Lines 162-163.\<close>

definition windImpact :: "real \<Rightarrow> int \<Rightarrow> int" where
  "windImpact speed score =
     (if speed < 5 then score + 10 else if speed > 10 then score - 10 else score)"

text \<open>Lines 166-169.\<close>

definition moonImpact :: "string \<Rightarrow> int \<Rightarrow> int" where
  "moonImpact phase score =
     (if phase = ''full'' then score + 10 else if phase = ''new'' then score - 5 else score)"

text \<open>
  Lines 138-169: the running total before the clamp. \<open>weather[0].main\<close> on an empty
  array reads a property of \<open>undefined\<close> and throws a \<open>TypeError\<close>; nothing has been
  stored at that point.
\<close>

datatype exn = TypeError

definition runningTotal :: "form_data \<Rightarrow> weather_data \<Rightarrow> exn + int" where
  "runningTotal fd wd =
     (let score = 50;
          score = temperatureImpact (waterTemperature fd) score;
          score = timeImpact (timeOfDay fd) score
      in case weather wd of
           [] \<Rightarrow> Inl TypeError
         | w0 # _ \<Rightarrow>
             (let mainWeather = toLowerCase (main w0);
                  score = weatherImpact mainWeather score;
                  score = windImpact (wind_speed wd) score;
                  score = moonImpact (moonPhase fd) score
              in Inr score))"

text \<open>
  The handler. Without weather data it stores the message and returns (lines 133-136);
  otherwise it stores the clamped total (lines 172-174).
\<close>

definition predictFishBite :: "app_state \<Rightarrow> exn + app_state" where
  "predictFishBite s =
     (case weatherData s of
        None \<Rightarrow> Inr (s\<lparr>error := Some ''Please fetch weather data first''\<rparr>)
      | Some wd \<Rightarrow>
          (case runningTotal (formData s) wd of
             Inl e \<Rightarrow> Inl e
           | Inr score \<Rightarrow> Inr (s\<lparr>prediction := Some (max 0 (min 100 score))\<rparr>)))"

subsection \<open>The rendered tier, lines 281-287\<close>

text \<open>
  When \<open>prediction\<close> is not \<open>null\<close> the component renders one paragraph for each of
  three conditions that holds. \<open>tierParagraphs\<close> lists the paragraphs rendered, in
  the order of the source.
\<close>

datatype tier = Excellent | Moderate | Poor

definition tierParagraphs :: "int \<Rightarrow> tier list" where
  "tierParagraphs p =
     (if p > 70 then [Excellent] else []) @
     (if p > 40 \<and> p \<le> 70 then [Moderate] else []) @
     (if p \<le> 40 then [Poor] else [])"

definition renderedTiers :: "app_state \<Rightarrow> tier list" where
  "renderedTiers s = (case prediction s of None \<Rightarrow> [] | Some p \<Rightarrow> tierParagraphs p)"

subsection \<open>The resolver: \<open>fetchWeatherData\<close>, \<open>fetchWeatherByCoords\<close>, \<open>handleGeolocate\<close>\<close>

text \<open>
  An outbound call is the \<open>axios.get\<close> of line 53 (by coordinates) or of line 115 (by
  name). The provider is a function from the call to its outcome: \<open>Some\<close> of the body
  when the promise resolves, \<open>None\<close> when it rejects and the \<open>catch\<close> block runs.
  The handlers store a body that arrives without looking into it, so nothing in the
  \<open>try\<close> block throws and the \<open>catch\<close> block runs for a rejected promise only.
  A handler returns the calls it issued together with the state it leaves once the
  promise has settled and the \<open>finally\<close> block has run; the state updates are applied
  in the order of the source.
\<close>

datatype request = ByName string | ByCoords real real

type_synonym provider = "request \<Rightarrow> weather_data option"

text \<open>\<open>Math.round\<close>: the nearest integer, a tie going up.\<close>

definition Math_round :: "real \<Rightarrow> real" where
  "Math_round x = of_int \<lfloor>x + 1 / 2\<rfloor>"

text \<open>Lines 48-70.\<close>

definition fetchWeatherByCoords ::
  "provider \<Rightarrow> real \<Rightarrow> real \<Rightarrow> app_state \<Rightarrow> request list \<times> app_state" where
  "fetchWeatherByCoords axios_get latitude longitude s =
     (let s = s\<lparr>loading := True\<rparr>;
          s = s\<lparr>error := None\<rparr>;
          req = ByCoords latitude longitude;
          s = (case axios_get req of
                 Some data \<Rightarrow>
                   (let s = s\<lparr>weatherData := Some data\<rparr>
                    in s\<lparr>formData := (formData s)\<lparr>location := name data,
                           waterTemperature := Math_round (main_temp data)\<rparr>\<rparr>)
               | None \<Rightarrow>
                   (let s = s\<lparr>error := Some ''Could not fetch weather data for your location.''\<rparr>
                    in s\<lparr>weatherData := None\<rparr>));
          s = s\<lparr>loading := False\<rparr>;
          s = s\<lparr>geoLoading := False\<rparr>
      in ([req], s))"

text \<open>
  Lines 72-103. The browser either has no \<open>navigator.geolocation\<close> (\<open>None\<close>) or answers
  \<open>getCurrentPosition\<close> with a position or with an error carrying a code. The three
  named codes are the constants of the platform's \<open>GeolocationPositionError\<close>.
\<close>

datatype geo_outcome = Position real real | PositionError nat

definition PERMISSION_DENIED :: nat where "PERMISSION_DENIED = 1"
definition POSITION_UNAVAILABLE :: nat where "POSITION_UNAVAILABLE = 2"
definition TIMEOUT :: nat where "TIMEOUT = 3"

definition handleGeolocate ::
  "geo_outcome option \<Rightarrow> provider \<Rightarrow> app_state \<Rightarrow> request list \<times> app_state" where
  "handleGeolocate geolocation axios_get s =
     (case geolocation of
        None \<Rightarrow> ([], s\<lparr>error := Some ''Geolocation is not supported by your browser''\<rparr>)
      | Some outcome \<Rightarrow>
          (let s = s\<lparr>geoLoading := True\<rparr>;
               s = s\<lparr>error := None\<rparr>
           in case outcome of
                Position latitude longitude \<Rightarrow> fetchWeatherByCoords axios_get latitude longitude s
              | PositionError code \<Rightarrow>
                  (let s = s\<lparr>geoLoading := False\<rparr>
                   in ([], s\<lparr>error := Some
                         (if code = PERMISSION_DENIED
                            then ''User denied the request for Geolocation.''
                          else if code = POSITION_UNAVAILABLE
                            then ''Location information is unavailable.''
                          else if code = TIMEOUT
                            then ''The request to get user location timed out.''
                          else ''An unknown error occurred.'')\<rparr>))))"

text \<open>Lines 105-130. The empty string is the one falsy value of \<open>formData.location\<close>.\<close>

definition fetchWeatherData :: "provider \<Rightarrow> app_state \<Rightarrow> request list \<times> app_state" where
  "fetchWeatherData axios_get s =
     (if location (formData s) = [] then ([], s\<lparr>error := Some ''Please enter a location''\<rparr>)
      else
        (let req = ByName (location (formData s));
             s = s\<lparr>loading := True\<rparr>;
             s = s\<lparr>error := None\<rparr>;
             s = (case axios_get req of
                    Some data \<Rightarrow>
                      (let s = s\<lparr>weatherData := Some data\<rparr>
                       in s\<lparr>formData := (formData s)\<lparr>waterTemperature :=
                              Math_round (main_temp data)\<rparr>\<rparr>)
                  | None \<Rightarrow>
                      (let s = s\<lparr>error :=
                                 Some ''Could not fetch weather data. Please check the location.''\<rparr>
                       in s\<lparr>weatherData := None\<rparr>));
             s = s\<lparr>loading := False\<rparr>
         in ([req], s)))"

text \<open>
  The two buttons that start a resolution are disabled while their flag is up
  (lines 213 and 219), so a handler starts only from a state where its button is enabled.
\<close>

definition getWeatherDisabled :: "app_state \<Rightarrow> bool" where
  "getWeatherDisabled s = loading s"

definition geolocateDisabled :: "app_state \<Rightarrow> bool" where
  "geolocateDisabled s = geoLoading s"

subsection \<open>The matching rule in the specification's words\<close>

text \<open>
  The specification describes the weather rule as a case-insensitive substring match:
  some stretch of the category, as long as the word, equals the word when letter case
  is ignored. The source lowers the whole category first and then searches; the two are
  compared below.
\<close>

definition equalsIgnoreCase :: "string \<Rightarrow> string \<Rightarrow> bool" where
  "equalsIgnoreCase a b = (toLowerCase a = toLowerCase b)"

definition containsIgnoreCase :: "string \<Rightarrow> string \<Rightarrow> bool" where
  "containsIgnoreCase s w =
     (\<exists>i \<in> {0..length s}. equalsIgnoreCase (take (length w) (drop i s)) w)"

subsection \<open>Sample inputs\<close>

text \<open>An observation of a clear, cold, calm day, a provider that always answers with it,
  a provider that never answers, and the form with a place name typed in.\<close>

definition clearDay :: weather_data where
  "clearDay =
     \<lparr>name = ''Oslo'', main_temp = 5,
      weather = [\<lparr>main = ''Clear'', description = ''clear sky''\<rparr>], wind_speed = 3\<rparr>"

definition answeringProvider :: provider where
  "answeringProvider req = Some clearDay"

definition failingProvider :: provider where
  "failingProvider req = None"

text \<open>A body that arrives with an empty \<open>weather\<close> array, and a provider that answers
  every call with it.\<close>

definition noConditionBody :: weather_data where
  "noConditionBody = \<lparr>name = ''Oslo'', main_temp = 5, weather = [], wind_speed = 3\<rparr>"

definition malformedProvider :: provider where
  "malformedProvider req = Some noConditionBody"

definition osloTyped :: app_state where
  "osloTyped = initialState\<lparr>formData := initialFormData\<lparr>location := ''Oslo''\<rparr>\<rparr>"

definition clearDayFetched :: app_state where
  "clearDayFetched = osloTyped\<lparr>weatherData := Some clearDay\<rparr>"

section \<open>Properties\<close>

subsection \<open>Facts about the string operations\<close>

lemma includes_str_sublist: "includes_str s t \<longleftrightarrow> sublist t s"
  by (induction s) (auto simp: sublist_Cons_right)

lemma sublist_position:
  "sublist t s \<longleftrightarrow> (\<exists>i \<in> {0..length s}. take (length t) (drop i s) = t)"
proof
  assume "sublist t s"
  then obtain ps ss where s: "s = ps @ t @ ss"
    by (auto simp: sublist_def)
  have "take (length t) (drop (length ps) s) = t"
    by (simp add: s)
  moreover have "length ps \<in> {0..length s}"
    by (simp add: s)
  ultimately show "\<exists>i \<in> {0..length s}. take (length t) (drop i s) = t"
    by blast
next
  assume "\<exists>i \<in> {0..length s}. take (length t) (drop i s) = t"
  then obtain i where i: "take (length t) (drop i s) = t"
    by blast
  have "s = take i s @ take (length t) (drop i s) @ drop (length t) (drop i s)"
    by (metis append_take_drop_id)
  with i have "s = take i s @ t @ drop (length t) (drop i s)"
    by simp
  then show "sublist t s"
    unfolding sublist_def by blast
qed

text \<open>Lowering first and searching for a lower-case word is the match that ignores case.\<close>

lemma includes_toLowerCase:
  assumes "toLowerCase w = w"
  shows "includes_str (toLowerCase s) w \<longleftrightarrow> containsIgnoreCase s w"
proof -
  have "take (length w) (drop i (toLowerCase s)) = toLowerCase (take (length w) (drop i s))" for i
    by (simp add: toLowerCase_def take_map drop_map)
  then show ?thesis
    using assms
    by (simp add: includes_str_sublist sublist_position containsIgnoreCase_def
        equalsIgnoreCase_def toLowerCase_def)
qed

lemma lower_case_words:
  "toLowerCase ''clear'' = ''clear''"
  "toLowerCase ''clouds'' = ''clouds''"
  "toLowerCase ''rain'' = ''rain''"
  by code_simp+

subsection \<open>The running total\<close>

lemma temperatureImpact_bounds:
  "score \<le> temperatureImpact t score \<and> temperatureImpact t score \<le> score + 20"
  by (simp add: temperatureImpact_def)

lemma timeImpact_bounds:
  "score \<le> timeImpact tod score \<and> timeImpact tod score \<le> score + 15"
  by (auto simp: timeImpact_def Let_def split: option.splits)

lemma weatherImpact_bounds:
  "score - 10 \<le> weatherImpact m score \<and> weatherImpact m score \<le> score + 10"
  by (simp add: weatherImpact_def)

lemma windImpact_bounds:
  "score - 10 \<le> windImpact w score \<and> windImpact w score \<le> score + 10"
  by (simp add: windImpact_def)

lemma moonImpact_bounds:
  "score - 5 \<le> moonImpact m score \<and> moonImpact m score \<le> score + 10"
  by (simp add: moonImpact_def)

lemma runningTotal_Cons:
  assumes "weather wd = w0 # ws"
  shows "runningTotal fd wd =
           Inr (moonImpact (moonPhase fd) (windImpact (wind_speed wd)
                  (weatherImpact (toLowerCase (main w0))
                     (timeImpact (timeOfDay fd) (temperatureImpact (waterTemperature fd) 50)))))"
  using assms by (simp add: runningTotal_def)

text \<open>
  With a primary condition present the total is defined. The five blocks can move it
  no lower than 25 and no higher than 115, so of the two sides of the clamp only the
  upper one is ever reached.
\<close>

lemma runningTotal_defined:
  assumes "weather wd \<noteq> []"
  shows "\<exists>t. runningTotal fd wd = Inr t \<and> 25 \<le> t \<and> t \<le> 115"
proof -
  from assms obtain w0 ws where w: "weather wd = w0 # ws"
    by (cases "weather wd") auto
  define a where "a = temperatureImpact (waterTemperature fd) 50"
  define b where "b = timeImpact (timeOfDay fd) a"
  define c where "c = weatherImpact (toLowerCase (main w0)) b"
  define d where "d = windImpact (wind_speed wd) c"
  define e where "e = moonImpact (moonPhase fd) d"
  have "50 \<le> a \<and> a \<le> 70"
    using temperatureImpact_bounds [of 50 "waterTemperature fd"] by (simp add: a_def)
  moreover have "a \<le> b \<and> b \<le> a + 15"
    unfolding b_def by (rule timeImpact_bounds)
  moreover have "b - 10 \<le> c \<and> c \<le> b + 10"
    unfolding c_def by (rule weatherImpact_bounds)
  moreover have "c - 10 \<le> d \<and> d \<le> c + 10"
    unfolding d_def by (rule windImpact_bounds)
  moreover have "d - 5 \<le> e \<and> e \<le> d + 10"
    unfolding e_def by (rule moonImpact_bounds)
  ultimately have "25 \<le> e \<and> e \<le> 115"
    by linarith
  moreover have "runningTotal fd wd = Inr e"
    by (simp add: runningTotal_Cons [OF w] a_def b_def c_def d_def e_def)
  ultimately show ?thesis
    by blast
qed

lemma morning_bonus: "timeImpact ''08:00'' 70 = 85"
  by code_simp

lemma clear_bonus: "weatherImpact (toLowerCase ''Clear'') 85 = 95"
  by code_simp

lemma clearDayFetched_total: "runningTotal (formData clearDayFetched) clearDay = Inr 115"
  by (simp add: runningTotal_def clearDayFetched_def osloTyped_def initialState_def
      initialFormData_def clearDay_def temperatureImpact_def windImpact_def moonImpact_def
      morning_bonus clear_bonus)

subsection \<open>The scorer\<close>

text \<open>
  C1. Whenever an observation with a primary condition is stored, \<open>predictFishBite\<close>
  succeeds and stores as prediction the running total clamped by
  \<open>max 0 (min 100 total)\<close>, an integer between 0 and 100, whatever the form data and the
  observation are. And on every state at all, a call that returns either leaves the
  prediction as it was or stores one between 0 and 100.
\<close>

theorem score_clamped:
  "(weatherData s = Some wd \<and> weather wd \<noteq> [] \<longrightarrow>
      (\<exists>total p. runningTotal (formData s) wd = Inr total
         \<and> p = max 0 (min 100 total)
         \<and> predictFishBite s = Inr (s\<lparr>prediction := Some p\<rparr>)
         \<and> 0 \<le> p \<and> p \<le> 100))
   \<and> (predictFishBite s = Inr s' \<longrightarrow>
        prediction s' = prediction s \<or> (\<exists>p. prediction s' = Some p \<and> 0 \<le> p \<and> p \<le> 100))"
proof (intro conjI impI)
  assume a: "weatherData s = Some wd \<and> weather wd \<noteq> []"
  with runningTotal_defined [of wd "formData s"]
  obtain t where "runningTotal (formData s) wd = Inr t"
    by blast
  with a show "\<exists>total p. runningTotal (formData s) wd = Inr total
         \<and> p = max 0 (min 100 total)
         \<and> predictFishBite s = Inr (s\<lparr>prediction := Some p\<rparr>)
         \<and> 0 \<le> p \<and> p \<le> 100"
    by (simp add: predictFishBite_def)
next
  assume "predictFishBite s = Inr s'"
  then show "prediction s' = prediction s \<or> (\<exists>p. prediction s' = Some p \<and> 0 \<le> p \<and> p \<le> 100)"
    by (auto simp: predictFishBite_def split: option.splits sum.splits)
qed

theorem score_clamped_witness:
  "weatherData clearDayFetched = Some clearDay \<and> weather clearDay \<noteq> []
   \<and> runningTotal (formData clearDayFetched) clearDay = Inr 115
   \<and> predictFishBite clearDayFetched = Inr (clearDayFetched\<lparr>prediction := Some 100\<rparr>)"
proof -
  have a: "weatherData clearDayFetched = Some clearDay"
    by (simp add: clearDayFetched_def)
  have b: "weather clearDay \<noteq> []"
    by (simp add: clearDay_def)
  from score_clamped [of clearDayFetched clearDay] clearDayFetched_total a b show ?thesis
    by auto
qed

text \<open>
  C2. With no observation stored, \<open>predictFishBite\<close> returns without scoring: it
  stores the message "Please fetch weather data first" as the error and changes nothing
  else, so the stored prediction is the one from before the call.
\<close>

theorem missing_observation:
  assumes "weatherData s = None"
  shows "predictFishBite s = Inr (s\<lparr>error := Some ''Please fetch weather data first''\<rparr>)
         \<and> prediction (s\<lparr>error := Some ''Please fetch weather data first''\<rparr>) = prediction s"
  using assms by (simp add: predictFishBite_def)

theorem missing_observation_witness:
  "weatherData initialState = None
   \<and> predictFishBite initialState
       = Inr (initialState\<lparr>error := Some ''Please fetch weather data first''\<rparr>)"
proof -
  have a: "weatherData initialState = None"
    by (simp add: initialState_def)
  from missing_observation [OF a] a show ?thesis
    by simp
qed

subsection \<open>What each path of the resolver leaves\<close>

lemma fetchWeatherData_success:
  assumes "location (formData s) \<noteq> []"
    and "axios_get (ByName (location (formData s))) = Some data"
  shows "fetchWeatherData axios_get s =
           ([ByName (location (formData s))],
            s\<lparr>formData := (formData s)\<lparr>waterTemperature := Math_round (main_temp data)\<rparr>,
              weatherData := Some data, loading := False, error := None\<rparr>)"
  using assms by (simp add: fetchWeatherData_def)

lemma fetchWeatherData_failure:
  assumes "location (formData s) \<noteq> []"
    and "axios_get (ByName (location (formData s))) = None"
  shows "fetchWeatherData axios_get s =
           ([ByName (location (formData s))],
            s\<lparr>weatherData := None, loading := False,
              error := Some ''Could not fetch weather data. Please check the location.''\<rparr>)"
  using assms by (simp add: fetchWeatherData_def)

lemma fetchWeatherByCoords_success:
  assumes "axios_get (ByCoords lat lon) = Some data"
  shows "fetchWeatherByCoords axios_get lat lon s =
           ([ByCoords lat lon],
            s\<lparr>formData := (formData s)\<lparr>location := name data,
                  waterTemperature := Math_round (main_temp data)\<rparr>,
              weatherData := Some data, loading := False, error := None, geoLoading := False\<rparr>)"
  using assms by (simp add: fetchWeatherByCoords_def)

lemma fetchWeatherByCoords_failure:
  assumes "axios_get (ByCoords lat lon) = None"
  shows "fetchWeatherByCoords axios_get lat lon s =
           ([ByCoords lat lon],
            s\<lparr>weatherData := None, loading := False,
              error := Some ''Could not fetch weather data for your location.'',
              geoLoading := False\<rparr>)"
  using assms by (simp add: fetchWeatherByCoords_def)

lemma handleGeolocate_error:
  "handleGeolocate (Some (PositionError code)) axios_get s =
     ([], s\<lparr>geoLoading := False,
            error := Some (if code = PERMISSION_DENIED
                            then ''User denied the request for Geolocation.''
                          else if code = POSITION_UNAVAILABLE
                            then ''Location information is unavailable.''
                          else if code = TIMEOUT
                            then ''The request to get user location timed out.''
                          else ''An unknown error occurred.'')\<rparr>)"
  by (simp add: handleGeolocate_def)

lemma handleGeolocate_position:
  "handleGeolocate (Some (Position lat lon)) axios_get s =
     fetchWeatherByCoords axios_get lat lon (s\<lparr>geoLoading := True, error := None\<rparr>)"
  by (simp add: handleGeolocate_def)

lemma osloTyped_location: "location (formData osloTyped) = ''Oslo''"
  by (simp add: osloTyped_def)

lemma answeringProvider_answers: "answeringProvider r = Some clearDay"
  by (simp add: answeringProvider_def)

lemma failingProvider_fails: "failingProvider r = None"
  by (simp add: failingProvider_def)

lemma malformedProvider_answers: "malformedProvider r = Some noConditionBody"
  by (simp add: malformedProvider_def)

lemma clearDayFetched_facts:
  "location (formData clearDayFetched) \<noteq> []"
  "weatherData clearDayFetched = Some clearDay"
  "prediction clearDayFetched = None"
  by (simp_all add: clearDayFetched_def osloTyped_def initialState_def)

subsection \<open>The resolver and the form\<close>

text \<open>
  C3, as the claim states it, fails. The form starts with water temperature 20 and the
  place name "Oslo" typed in; the provider answers both calls with an observation of
  5 degrees. After the resolution by name, and after the one by coordinates, the water
  temperature held in the form is 5, not the 20 held before.
\<close>

theorem resolver_changes_water_temperature:
  "answeringProvider (ByName (location (formData osloTyped))) = Some clearDay
   \<and> answeringProvider (ByCoords 60 11) = Some clearDay
   \<and> waterTemperature (formData osloTyped) = 20
   \<and> waterTemperature (formData (snd (fetchWeatherData answeringProvider osloTyped))) = 5
   \<and> waterTemperature (formData (snd (fetchWeatherByCoords answeringProvider 60 11 osloTyped))) = 5
   \<and> waterTemperature (formData (snd (fetchWeatherData answeringProvider osloTyped)))
       \<noteq> waterTemperature (formData osloTyped)
   \<and> waterTemperature (formData (snd (fetchWeatherByCoords answeringProvider 60 11 osloTyped)))
       \<noteq> waterTemperature (formData osloTyped)"
  by (simp add: fetchWeatherData_def fetchWeatherByCoords_def osloTyped_def initialState_def
      initialFormData_def answeringProvider_def clearDay_def Math_round_def)

text \<open>
  C3, amended. After every successful resolution, by name or by coordinates, the time of
  day, the moon phase and the stored prediction are the ones from before the call. The
  resolver itself stores the observation as the current one and overwrites the water
  temperature of the form with the observation's temperature rounded to the nearest
  integer. The location of the form is kept by the resolution by name and replaced with
  the resolved place name by the resolution by coordinates.
\<close>

theorem resolver_frame:
  "(location (formData s) \<noteq> [] \<and> axios_get (ByName (location (formData s))) = Some data \<longrightarrow>
      (let s' = snd (fetchWeatherData axios_get s) in
         timeOfDay (formData s') = timeOfDay (formData s)
         \<and> moonPhase (formData s') = moonPhase (formData s)
         \<and> location (formData s') = location (formData s)
         \<and> prediction s' = prediction s
         \<and> waterTemperature (formData s') = Math_round (main_temp data)
         \<and> weatherData s' = Some data))
   \<and> (axios_get (ByCoords lat lon) = Some data \<longrightarrow>
      (let s' = snd (fetchWeatherByCoords axios_get lat lon s) in
         timeOfDay (formData s') = timeOfDay (formData s)
         \<and> moonPhase (formData s') = moonPhase (formData s)
         \<and> location (formData s') = name data
         \<and> prediction s' = prediction s
         \<and> waterTemperature (formData s') = Math_round (main_temp data)
         \<and> weatherData s' = Some data))"
  by (simp add: fetchWeatherData_success fetchWeatherByCoords_success)

theorem resolver_frame_witness:
  "location (formData osloTyped) \<noteq> []
   \<and> answeringProvider (ByName (location (formData osloTyped))) = Some clearDay
   \<and> answeringProvider (ByCoords 60 11) = Some clearDay
   \<and> timeOfDay (formData (snd (fetchWeatherData answeringProvider osloTyped))) = ''08:00''
   \<and> moonPhase (formData (snd (fetchWeatherByCoords answeringProvider 60 11 osloTyped))) = ''full''
   \<and> weatherData (snd (fetchWeatherData answeringProvider osloTyped)) = Some clearDay"
proof -
  have a: "location (formData osloTyped) \<noteq> []"
    by (simp add: osloTyped_location)
  have c: "timeOfDay (formData osloTyped) = ''08:00''" "moonPhase (formData osloTyped) = ''full''"
    by (simp_all add: osloTyped_def initialFormData_def)
  from resolver_frame [of osloTyped answeringProvider clearDay 60 11] a c
  show ?thesis
    by (simp add: Let_def answeringProvider_answers)
qed

subsection \<open>The weather rule\<close>

text \<open>
  C4. For every condition category \<open>c\<close> and every score before the block, the weather
  block of the scorer (which receives \<open>c\<close> in lower case) adds 10 when \<open>c\<close> contains
  "clear" with case ignored; otherwise adds 5 when it contains "clouds"; otherwise
  subtracts 10 when it contains "rain"; otherwise leaves the score. A category that
  contains both "clear" and "rain" gets the 10 of "clear".
\<close>

theorem weather_condition_priority:
  "weatherImpact (toLowerCase c) score =
     (if containsIgnoreCase c ''clear'' then score + 10
      else if containsIgnoreCase c ''clouds'' then score + 5
      else if containsIgnoreCase c ''rain'' then score - 10
      else score)
   \<and> (containsIgnoreCase c ''clear'' \<and> containsIgnoreCase c ''rain''
        \<longrightarrow> weatherImpact (toLowerCase c) score = score + 10)"
  by (simp add: weatherImpact_def includes_toLowerCase lower_case_words)

theorem weather_condition_priority_witness:
  "containsIgnoreCase ''Rain, CLEAR later'' ''clear''
   \<and> containsIgnoreCase ''Rain, CLEAR later'' ''rain''
   \<and> weatherImpact (toLowerCase ''Rain, CLEAR later'') 50 = 60"
proof -
  have a: "containsIgnoreCase ''Rain, CLEAR later'' ''clear''"
    by code_simp
  have b: "containsIgnoreCase ''Rain, CLEAR later'' ''rain''"
    by code_simp
  from a b weather_condition_priority [of "''Rain, CLEAR later''" 50]
  show ?thesis by simp
qed

subsection \<open>The wind rule\<close>

text \<open>
  C5. For every wind speed \<open>w\<close> that is not negative and every score before the block,
  the wind block adds 10 when \<open>w < 5\<close>, subtracts 10 when \<open>w > 10\<close> and leaves the
  score otherwise; at \<open>w = 5\<close> and at \<open>w = 10\<close> the score is left.
\<close>

theorem wind_adjustment:
  assumes "0 \<le> w"
  shows "(w < 5 \<longrightarrow> windImpact w score = score + 10)
       \<and> (w > 10 \<longrightarrow> windImpact w score = score - 10)
       \<and> (5 \<le> w \<and> w \<le> 10 \<longrightarrow> windImpact w score = score)
       \<and> windImpact 5 score = score \<and> windImpact 10 score = score"
  by (simp add: windImpact_def)

theorem wind_adjustment_witness:
  "(0::real) \<le> 3 \<and> (0::real) \<le> 12 \<and> (0::real) \<le> 7
   \<and> windImpact 3 50 = 60 \<and> windImpact 12 50 = 40 \<and> windImpact 7 50 = 50
   \<and> windImpact 5 50 = 50 \<and> windImpact 10 50 = 50"
  using wind_adjustment [of 3 50] wind_adjustment [of 12 50] wind_adjustment [of 7 50]
  by simp

subsection \<open>The tier\<close>

text \<open>
  C6. For every score \<open>p\<close> (in particular every one from 0 to 100) exactly one tier
  paragraph is rendered: "excellent" iff \<open>p > 70\<close>, "moderate" iff \<open>40 < p \<le> 70\<close>,
  "poor" iff \<open>p \<le> 40\<close>. So 70 is moderate, 71 excellent, 40 poor and 41 moderate.
\<close>

theorem tier_thresholds:
  "(tierParagraphs p = [Excellent] \<longleftrightarrow> p > 70)
   \<and> (tierParagraphs p = [Moderate] \<longleftrightarrow> 40 < p \<and> p \<le> 70)
   \<and> (tierParagraphs p = [Poor] \<longleftrightarrow> p \<le> 40)
   \<and> tierParagraphs 70 = [Moderate] \<and> tierParagraphs 71 = [Excellent]
   \<and> tierParagraphs 40 = [Poor] \<and> tierParagraphs 41 = [Moderate]"
  by (simp add: tierParagraphs_def)

theorem tier_thresholds_witness:
  "tierParagraphs 55 = [Moderate] \<and> tierParagraphs 100 = [Excellent] \<and> tierParagraphs 0 = [Poor]"
  using tier_thresholds [of 55] tier_thresholds [of 100] tier_thresholds [of 0] by simp

subsection \<open>Scenario A\<close>

text \<open>
  C7. With water temperature 20, time of day "08:00", moon phase full, a primary
  condition "Clear" and wind speed 3, the running total is 50+20+15+10+10+10 = 115,
  the stored prediction is 100 and the tier rendered for it is "excellent".
\<close>

theorem scenario_A:
  assumes "waterTemperature (formData s) = 20" and "timeOfDay (formData s) = ''08:00''"
    and "moonPhase (formData s) = ''full''"
    and "weatherData s = Some wd" and "weather wd = c # cs" and "main c = ''Clear''"
    and "wind_speed wd = 3"
  shows "runningTotal (formData s) wd = Inr (50 + 20 + 15 + 10 + 10 + 10)
         \<and> predictFishBite s = Inr (s\<lparr>prediction := Some 100\<rparr>)
         \<and> renderedTiers (s\<lparr>prediction := Some 100\<rparr>) = [Excellent]"
proof -
  have "runningTotal (formData s) wd = Inr 115"
    using assms
    by (simp add: runningTotal_Cons temperatureImpact_def windImpact_def moonImpact_def
        morning_bonus clear_bonus)
  with assms(4) show ?thesis
    by (simp add: predictFishBite_def renderedTiers_def tierParagraphs_def)
qed

theorem scenario_A_witness:
  "waterTemperature (formData clearDayFetched) = 20
   \<and> timeOfDay (formData clearDayFetched) = ''08:00''
   \<and> moonPhase (formData clearDayFetched) = ''full''
   \<and> weatherData clearDayFetched = Some clearDay
   \<and> weather clearDay = [\<lparr>main = ''Clear'', description = ''clear sky''\<rparr>]
   \<and> wind_speed clearDay = 3
   \<and> runningTotal (formData clearDayFetched) clearDay = Inr 115
   \<and> predictFishBite clearDayFetched = Inr (clearDayFetched\<lparr>prediction := Some 100\<rparr>)
   \<and> renderedTiers (clearDayFetched\<lparr>prediction := Some 100\<rparr>) = [Excellent]"
proof -
  have f: "waterTemperature (formData clearDayFetched) = 20"
    "timeOfDay (formData clearDayFetched) = ''08:00''"
    "moonPhase (formData clearDayFetched) = ''full''"
    by (simp_all add: clearDayFetched_def osloTyped_def initialFormData_def)
  have w: "weatherData clearDayFetched = Some clearDay"
    by (simp add: clearDayFetched_def)
  have c: "weather clearDay = [\<lparr>main = ''Clear'', description = ''clear sky''\<rparr>]"
    "wind_speed clearDay = 3"
    by (simp_all add: clearDay_def)
  have m: "main \<lparr>main = ''Clear'', description = ''clear sky''\<rparr> = ''Clear''"
    by simp
  from scenario_A [OF f w c(1) m c(2)] f w c show ?thesis
    by simp
qed

subsection \<open>The resolver's failures\<close>

text \<open>
  C8. With the empty string as location, \<open>fetchWeatherData\<close> issues no outbound call,
  stores the message "Please enter a location" as the error and changes nothing else:
  the stored observation is the one from before the call.
\<close>

theorem empty_location_refused:
  assumes "location (formData s) = []"
  shows "fetchWeatherData axios_get s = ([], s\<lparr>error := Some ''Please enter a location''\<rparr>)
         \<and> fst (fetchWeatherData axios_get s) = []
         \<and> error (snd (fetchWeatherData axios_get s)) = Some ''Please enter a location''
         \<and> weatherData (snd (fetchWeatherData axios_get s)) = weatherData s"
  using assms by (simp add: fetchWeatherData_def)

theorem empty_location_refused_witness:
  "location (formData initialState) = []
   \<and> fetchWeatherData answeringProvider initialState
       = ([], initialState\<lparr>error := Some ''Please enter a location''\<rparr>)"
proof -
  have a: "location (formData initialState) = []"
    by (simp add: initialState_def initialFormData_def)
  from empty_location_refused [OF a, of answeringProvider] a show ?thesis
    by simp
qed

text \<open>
  C9. Whatever the provider and the geolocation service answer: a fetch by name that
  issued its call leaves \<open>loading\<close> down, and so does every fetch by name started while
  its button is enabled; a fetch by coordinates leaves \<open>loading\<close> and \<open>geoLoading\<close> down;
  a geolocation that the browser supports leaves \<open>geoLoading\<close> down, and so does every
  geolocation started while its button is enabled. A geolocation failure with the
  permission-denied code stores "User denied the request for Geolocation." and leaves
  \<open>geoLoading\<close> down.
\<close>

theorem busy_flags_cleared:
  "(location (formData s) \<noteq> [] \<longrightarrow> \<not> loading (snd (fetchWeatherData axios_get s)))
   \<and> (\<not> getWeatherDisabled s \<longrightarrow> \<not> loading (snd (fetchWeatherData axios_get s)))
   \<and> \<not> loading (snd (fetchWeatherByCoords axios_get lat lon s))
   \<and> \<not> geoLoading (snd (fetchWeatherByCoords axios_get lat lon s))
   \<and> \<not> geoLoading (snd (handleGeolocate (Some outcome) axios_get s))
   \<and> (\<not> geolocateDisabled s \<longrightarrow> \<not> geoLoading (snd (handleGeolocate geolocation axios_get s)))
   \<and> handleGeolocate (Some (PositionError PERMISSION_DENIED)) axios_get s
       = ([], s\<lparr>geoLoading := False,
               error := Some ''User denied the request for Geolocation.''\<rparr>)"
proof -
  have by_name: "\<not> loading (snd (fetchWeatherData axios_get s))"
    if "location (formData s) \<noteq> [] \<or> \<not> loading s"
    using that by (cases "axios_get (ByName (location (formData s)))")
      (auto simp: fetchWeatherData_def)
  have coords: "\<not> loading (snd (fetchWeatherByCoords axios_get la lo t))
                \<and> \<not> geoLoading (snd (fetchWeatherByCoords axios_get la lo t))" for la lo t
    by (cases "axios_get (ByCoords la lo)") (simp_all add: fetchWeatherByCoords_def)
  have geo: "\<not> geoLoading (snd (handleGeolocate (Some out) axios_get s))" for out
    by (cases out) (simp_all add: handleGeolocate_error handleGeolocate_position coords)
  have geo_any: "\<not> geoLoading (snd (handleGeolocate geolocation axios_get s))"
    if "\<not> geoLoading s"
  proof (cases geolocation)
    case None
    with that show ?thesis by (simp add: handleGeolocate_def)
  next
    case (Some out)
    with geo show ?thesis by simp
  qed
  show ?thesis
    using by_name coords geo geo_any
    by (simp add: getWeatherDisabled_def geolocateDisabled_def handleGeolocate_error)
qed

theorem busy_flags_cleared_witness:
  "location (formData osloTyped) \<noteq> [] \<and> \<not> getWeatherDisabled osloTyped
   \<and> \<not> geolocateDisabled osloTyped
   \<and> \<not> loading (snd (fetchWeatherData failingProvider osloTyped))
   \<and> \<not> geoLoading (snd (handleGeolocate (Some (Position 60 11)) failingProvider osloTyped))
   \<and> \<not> geoLoading (snd (handleGeolocate None failingProvider osloTyped))
   \<and> snd (handleGeolocate (Some (PositionError 1)) failingProvider osloTyped)
       = osloTyped\<lparr>geoLoading := False,
                   error := Some ''User denied the request for Geolocation.''\<rparr>"
proof -
  have a: "location (formData osloTyped) \<noteq> []"
    by (simp add: osloTyped_location)
  have b: "\<not> getWeatherDisabled osloTyped" "\<not> geolocateDisabled osloTyped"
    by (simp_all add: osloTyped_def initialState_def getWeatherDisabled_def geolocateDisabled_def)
  from busy_flags_cleared [of osloTyped failingProvider 60 11 "Position 60 11" None] a b
  show ?thesis
    by (simp add: PERMISSION_DENIED_def)
qed

text \<open>
  C10, as the claim states it, fails for a provider failure that is a malformed answer.
  The observation of a clear day is stored and "Oslo" is typed in; the provider's
  promise resolves with a body whose \<open>weather\<close> array is empty. After the resolution by
  name, and after the one by coordinates, that body is the stored observation (it is
  not reset to absent) and no error message is stored. A \<open>predictFishBite\<close> right
  after does not take the missing-observation branch: it reads \<open>weather[0].main\<close> and
  throws.
\<close>

theorem malformed_answer_is_stored:
  "weatherData clearDayFetched = Some clearDay
   \<and> malformedProvider (ByName (location (formData clearDayFetched))) = Some noConditionBody
   \<and> malformedProvider (ByCoords 60 11) = Some noConditionBody
   \<and> weather noConditionBody = []
   \<and> weatherData (snd (fetchWeatherData malformedProvider clearDayFetched)) = Some noConditionBody
   \<and> weatherData (snd (fetchWeatherData malformedProvider clearDayFetched)) \<noteq> None
   \<and> error (snd (fetchWeatherData malformedProvider clearDayFetched)) = None
   \<and> weatherData (snd (fetchWeatherByCoords malformedProvider 60 11 clearDayFetched))
       = Some noConditionBody
   \<and> weatherData (snd (fetchWeatherByCoords malformedProvider 60 11 clearDayFetched)) \<noteq> None
   \<and> error (snd (fetchWeatherByCoords malformedProvider 60 11 clearDayFetched)) = None
   \<and> predictFishBite (snd (fetchWeatherData malformedProvider clearDayFetched)) = Inl TypeError
   \<and> predictFishBite (snd (fetchWeatherByCoords malformedProvider 60 11 clearDayFetched))
       = Inl TypeError"
proof -
  have body: "weather noConditionBody = []"
    by (simp add: noConditionBody_def)
  have by_name: "snd (fetchWeatherData malformedProvider clearDayFetched) =
      clearDayFetched\<lparr>formData := (formData clearDayFetched)\<lparr>waterTemperature :=
          Math_round (main_temp noConditionBody)\<rparr>,
        weatherData := Some noConditionBody, loading := False, error := None\<rparr>"
    by (simp add: fetchWeatherData_success [OF clearDayFetched_facts(1) malformedProvider_answers])
  have by_coords: "snd (fetchWeatherByCoords malformedProvider 60 11 clearDayFetched) =
      clearDayFetched\<lparr>formData := (formData clearDayFetched)\<lparr>location := name noConditionBody,
          waterTemperature := Math_round (main_temp noConditionBody)\<rparr>,
        weatherData := Some noConditionBody, loading := False, error := None,
        geoLoading := False\<rparr>"
    by (simp add: fetchWeatherByCoords_success [OF malformedProvider_answers])
  show ?thesis
    unfolding by_name by_coords
    by (simp add: clearDayFetched_facts malformedProvider_answers body predictFishBite_def
        runningTotal_def)
qed

text \<open>
  C10, amended. When the provider's request is rejected, the fetch by name (of a
  location that is not empty) and the fetch by coordinates both leave no observation
  stored, whatever was stored before, together with their error message; a
  \<open>predictFishBite\<close> right after stores the message "Please fetch weather data first"
  and nothing else, and the prediction is still the one from before the failed
  resolution. When the request resolves, the body that arrived is stored as the
  observation, whatever it holds, and no error message is stored.
\<close>

theorem rejected_request_resets_observation:
  "(location (formData s) \<noteq> [] \<and> axios_get (ByName (location (formData s))) = None \<longrightarrow>
      (let s' = snd (fetchWeatherData axios_get s) in
         weatherData s' = None
         \<and> error s' = Some ''Could not fetch weather data. Please check the location.''
         \<and> predictFishBite s' = Inr (s'\<lparr>error := Some ''Please fetch weather data first''\<rparr>)
         \<and> prediction s' = prediction s))
   \<and> (axios_get (ByCoords lat lon) = None \<longrightarrow>
      (let s' = snd (fetchWeatherByCoords axios_get lat lon s) in
         weatherData s' = None
         \<and> error s' = Some ''Could not fetch weather data for your location.''
         \<and> predictFishBite s' = Inr (s'\<lparr>error := Some ''Please fetch weather data first''\<rparr>)
         \<and> prediction s' = prediction s))
   \<and> (location (formData s) \<noteq> [] \<and> axios_get (ByName (location (formData s))) = Some data \<longrightarrow>
      (let s' = snd (fetchWeatherData axios_get s) in
         weatherData s' = Some data \<and> error s' = None))
   \<and> (axios_get (ByCoords lat lon) = Some data \<longrightarrow>
      (let s' = snd (fetchWeatherByCoords axios_get lat lon s) in
         weatherData s' = Some data \<and> error s' = None))"
  by (simp add: fetchWeatherData_failure fetchWeatherByCoords_failure predictFishBite_def
      fetchWeatherData_success fetchWeatherByCoords_success)

theorem rejected_request_resets_observation_witness:
  "location (formData clearDayFetched) \<noteq> []
   \<and> weatherData clearDayFetched = Some clearDay
   \<and> failingProvider (ByName (location (formData clearDayFetched))) = None
   \<and> failingProvider (ByCoords 60 11) = None
   \<and> weatherData (snd (fetchWeatherData failingProvider clearDayFetched)) = None
   \<and> weatherData (snd (fetchWeatherByCoords failingProvider 60 11 clearDayFetched)) = None
   \<and> error (snd (fetchWeatherData failingProvider clearDayFetched))
       = Some ''Could not fetch weather data. Please check the location.''
   \<and> prediction (snd (fetchWeatherByCoords failingProvider 60 11 clearDayFetched)) = None
   \<and> answeringProvider (ByName (location (formData clearDayFetched))) = Some clearDay
   \<and> answeringProvider (ByCoords 60 11) = Some clearDay
   \<and> weatherData (snd (fetchWeatherData answeringProvider clearDayFetched)) = Some clearDay
   \<and> error (snd (fetchWeatherByCoords answeringProvider 60 11 clearDayFetched)) = None"
proof -
  note rejected = rejected_request_resets_observation
    [where s = clearDayFetched and axios_get = failingProvider and lat = 60 and lon = 11]
  note resolved = rejected_request_resets_observation
    [where s = clearDayFetched and axios_get = answeringProvider and lat = 60 and lon = 11
       and data = clearDay]
  from rejected resolved clearDayFetched_facts show ?thesis
    by (simp add: Let_def failingProvider_fails answeringProvider_answers)
qed

end
